theory Spec2Isabelle
  imports Main "HOL-Library.AList"
begin

section \<open>The Idea Box tool of src/index.js\<close>

text \<open>
  The tool is one JavaScript class, \<open>Idea\<close>, with a constructor and the methods
  \<open>render\<close>, \<open>save\<close> and \<open>_make\<close>. It runs against two things that are not part of
  the file: the JavaScript language (property access, \<open>||\<close>, \<open>!\<close>, conversion to
  string) and the DOM (elements, class lists, \<open>innerHTML\<close>, \<open>querySelector\<close>). Both are
  modelled below as far as the class uses them; what the class itself does follows in
  the order of the source.
\<close>

subsection \<open>JavaScript values\<close>

text \<open>
  The values a field of \<open>data\<close> or \<open>config\<close> can hold: the primitive values. \<open>JNum n\<close>
  is the number with the integer value \<open>n\<close> (\<open>+0\<close> and \<open>-0\<close> are both \<open>JNum 0\<close>);
  numbers with a fraction, arrays, functions and nested objects are left out.
\<close>

datatype prim = JUndefined | JNull | JBool bool | JNum int | JNaN | JStr string

text \<open>
  An argument of the constructor (\<open>data\<close>, \<open>config\<close>) is a primitive value or an object
  with its own properties in insertion order.
\<close>

datatype jsval = Prim prim | Obj "(string \<times> prim) list"

datatype error = TypeError | SyntaxError | InvalidCharacterError

text \<open>\<open>ToBoolean\<close>: the falsy values are undefined, null, false, 0, NaN and the empty string.\<close>

fun truthy :: "prim \<Rightarrow> bool" where
  "truthy JUndefined = False"
| "truthy JNull = False"
| "truthy (JBool b) = b"
| "truthy (JNum n) = (n \<noteq> 0)"
| "truthy JNaN = False"
| "truthy (JStr s) = (s \<noteq> [])"

text \<open>\<open>a || b\<close>: the left operand when it is truthy, the right one otherwise.\<close>

definition logical_or :: "prim \<Rightarrow> prim \<Rightarrow> prim" where
  "logical_or a b = (if truthy a then a else b)"

text \<open>
  The value of the property \<open>k\<close> of an object: the first binding of \<open>k\<close>, and undefined
  when the object has no such property.
\<close>

definition field :: "(string \<times> prim) list \<Rightarrow> string \<Rightarrow> prim" where
  "field ps k = (case map_of ps k of Some v \<Rightarrow> v | None \<Rightarrow> JUndefined)"

text \<open>
  \<open>v.k\<close> for the four names the constructor reads (\<open>title\<close>, \<open>message\<close>,
  \<open>titlePlaceholder\<close>, \<open>messagePlaceholder\<close>; no prototype of a built-in value defines
  one of them): reading a property of undefined or null throws a TypeError, and a
  boolean, a number or a string has no such property.
\<close>

fun Get :: "jsval \<Rightarrow> string \<Rightarrow> error + prim" where
  "Get (Prim JUndefined) k = Inl TypeError"
| "Get (Prim JNull) k = Inl TypeError"
| "Get (Prim v) k = Inr JUndefined"
| "Get (Obj ps) k = Inr (field ps k)"

text \<open>The decimal digits of a natural number.\<close>

function string_of_nat :: "nat \<Rightarrow> string" where
  "string_of_nat n =
     (if n < 10 then [''0123456789'' ! n]
      else string_of_nat (n div 10) @ [''0123456789'' ! (n mod 10)])"
  by pat_completeness auto
termination
  by (relation "measure id") auto

text \<open>Sequencing of steps that may throw: the first error ends the method.\<close>

definition and_then :: "error + 'a \<Rightarrow> ('a \<Rightarrow> error + 'b) \<Rightarrow> error + 'b" where
  "and_then m f = (case m of Inl e \<Rightarrow> Inl e | Inr x \<Rightarrow> f x)"

subsection \<open>The heap of objects\<close>

text \<open>
  \<open>this.data\<close> is an object that \<open>save\<close> mutates and returns, so objects live in a heap:
  \<open>cells\<close> maps a reference to the object's properties, in insertion order, and \<open>fresh\<close>
  is the next reference an object literal gets.
\<close>

type_synonym ref = nat

record heap =
  cells :: "ref \<Rightarrow> (string \<times> prim) list"
  fresh :: ref

text \<open>\<open>Object.assign(target, source)\<close>: every property of the source is set on the target.\<close>

definition Object_assign :: "(string \<times> prim) list \<Rightarrow> (string \<times> prim) list \<Rightarrow> (string \<times> prim) list" where
  "Object_assign target source = fold (\<lambda>(k, v) ps. AList.update k v ps) source target"

subsection \<open>The DOM\<close>

text \<open>
  A node is a text node or an element; an element has a tag name, a class list, its
  other attributes and its child nodes. Elements are values: the state of the node at
  the moment it is passed.
\<close>

datatype node = Text string | Elem element
  and element = Element (tagName: string) (classList: "string list")
      (attributes: "(string \<times> string) list") (childNodes: "node list")

text \<open>
  The HTML parser and serialiser of the browser are parameters: \<open>parseFragment\<close> is what
  setting \<open>innerHTML\<close> to a string makes the children of a \<open>div\<close>, \<open>serializeFragment\<close>
  is what reading \<open>innerHTML\<close> returns for a list of children. So is the way the engine
  prints a number above \<open>2^53\<close> in magnitude, \<open>numberToString\<close>: such a number prints
  with rounded digits, and in exponent notation from \<open>10^21\<close>.
\<close>

record platform =
  parseFragment :: "string \<Rightarrow> node list"
  serializeFragment :: "node list \<Rightarrow> string"
  numberToString :: "int \<Rightarrow> string"

text \<open>
  \<open>ToString\<close> of a primitive value. An integer up to \<open>2^53\<close> in magnitude prints in
  decimal.
\<close>

fun ToString :: "platform \<Rightarrow> prim \<Rightarrow> string" where
  "ToString P JUndefined = ''undefined''"
| "ToString P JNull = ''null''"
| "ToString P (JBool b) = (if b then ''true'' else ''false'')"
| "ToString P (JNum n) =
     (if \<bar>n\<bar> \<le> 9007199254740992
      then (if n < 0 then CHR ''-'' # string_of_nat (nat (- n)) else string_of_nat (nat n))
      else numberToString P n)"
| "ToString P JNaN = ''NaN''"
| "ToString P (JStr s) = s"

text \<open>
  \<open>classList.add(...tokens)\<close>: an empty token is a SyntaxError and a token with ASCII
  white space an InvalidCharacterError, checked for every token before any is added; a
  token already in the list is not added again.
\<close>

definition ascii_whitespace :: "char \<Rightarrow> bool" where
  "ascii_whitespace c = (c \<in> {CHR 0x09, CHR 0x0A, CHR 0x0C, CHR 0x0D, CHR 0x20})"

fun invalid_token :: "string list \<Rightarrow> error option" where
  "invalid_token [] = None"
| "invalid_token (t # ts) =
     (if t = [] then Some SyntaxError
      else if list_ex ascii_whitespace t then Some InvalidCharacterError
      else invalid_token ts)"

fun append_tokens :: "string list \<Rightarrow> string list \<Rightarrow> string list" where
  "append_tokens cl [] = cl"
| "append_tokens cl (t # ts) = append_tokens (if t \<in> set cl then cl else cl @ [t]) ts"

definition classList_add :: "element \<Rightarrow> string list \<Rightarrow> error + element" where
  "classList_add el tokens =
     (case invalid_token tokens of
        Some e \<Rightarrow> Inl e
      | None \<Rightarrow> Inr (Element (tagName el) (append_tokens (classList el) tokens)
                         (attributes el) (childNodes el)))"

text \<open>\<open>document.createElement(tagName)\<close>, for a valid tag name.\<close>

definition createElement :: "string \<Rightarrow> element" where
  "createElement tag = Element tag [] [] []"

text \<open>
  The two properties \<open>render\<close> passes to \<open>_make\<close>. \<open>el.contentEditable = b\<close> with a
  boolean sets the attribute \<open>contenteditable\<close> to \<open>true\<close> or \<open>false\<close>;
  \<open>el.innerHTML = v\<close> replaces the children by the parsed string of \<open>v\<close>, where null
  counts as the empty string.
\<close>

datatype attribute = ContentEditable bool | InnerHTML prim

fun assign :: "platform \<Rightarrow> attribute \<Rightarrow> element \<Rightarrow> element" where
  "assign P (ContentEditable b) el =
     Element (tagName el) (classList el)
       (AList.update ''contenteditable'' (if b then ''true'' else ''false'') (attributes el))
       (childNodes el)"
| "assign P (InnerHTML v) el =
     Element (tagName el) (classList el) (attributes el)
       (parseFragment P (if v = JNull then [] else ToString P v))"

text \<open>Reading \<open>el.innerHTML\<close>.\<close>

definition innerHTML :: "platform \<Rightarrow> element \<Rightarrow> string" where
  "innerHTML P el = serializeFragment P (childNodes el)"

text \<open>\<open>el.dataset[name] = v\<close> sets the attribute \<open>data-name\<close> to the string of \<open>v\<close>.\<close>

definition dataset_set :: "platform \<Rightarrow> element \<Rightarrow> string \<Rightarrow> prim \<Rightarrow> element" where
  "dataset_set P el name v =
     Element (tagName el) (classList el)
       (AList.update (''data-'' @ name) (ToString P v) (attributes el)) (childNodes el)"

text \<open>\<open>parent.appendChild(child)\<close> for a child that has no parent yet.\<close>

definition appendChild :: "element \<Rightarrow> element \<Rightarrow> element" where
  "appendChild parent child =
     Element (tagName parent) (classList parent) (attributes parent)
       (childNodes parent @ [Elem child])"

text \<open>
  \<open>el.querySelector('.' + c)\<close> for a class name \<open>c\<close>: the first descendant element, in
  document order, whose class list has \<open>c\<close>; null (\<open>None\<close>) when there is none. The
  element itself is not a candidate. Class names are compared as they are written (a
  document in no-quirks mode).
\<close>

function first_with_class :: "string \<Rightarrow> node list \<Rightarrow> element option" where
  "first_with_class c [] = None"
| "first_with_class c (Text s # ns) = first_with_class c ns"
| "first_with_class c (Elem (Element tag cl as ch) # ns) =
     (if c \<in> set cl then Some (Element tag cl as ch)
      else (case first_with_class c ch of
              Some d \<Rightarrow> Some d
            | None \<Rightarrow> first_with_class c ns))"
  by pat_completeness auto
termination
  by (relation "measure (\<lambda>(c, ns). size_list size ns)") auto

definition querySelector :: "element \<Rightarrow> string \<Rightarrow> element option" where
  "querySelector el c = first_with_class c (childNodes el)"

text \<open>
  Every call of \<open>document.createElement\<close> makes a new node. The document counts the
  nodes made so far (\<open>created\<close>); the node \<open>r\<close> is, as a value, the element \<open>nodes r\<close>
  with the subtree it has at the moment, and \<open>children r\<close> are the nodes that were
  appended to it, in order. The nodes the parser makes for \<open>innerHTML\<close> are part of the
  value only.
\<close>

record document =
  nodes :: "nat \<Rightarrow> element"
  children :: "nat \<Rightarrow> nat list"
  created :: nat

subsection \<open>The class Idea\<close>

text \<open>
  The capability object of the host: the widget reads \<open>api.styles.block\<close> and
  \<open>api.styles.input\<close>, the names of two style classes of the host. A class name is a
  string that is not empty and has no ASCII white space.
\<close>

typedef class_name = "{s :: string. s \<noteq> [] \<and> \<not> list_ex ascii_whitespace s}"
  morphisms chars ClassName
  by (rule exI [of _ "''a''"]) (simp add: ascii_whitespace_def)

record Styles =
  block :: class_name
  input :: class_name

record Api =
  styles :: Styles

text \<open>
  An instance. \<open>readOnly\<close> and the placeholders are kept as the values they were given;
  \<open>data\<close> is the reference of the stored record, an object with the properties \<open>title\<close>
  and \<open>message\<close>.
\<close>

record Idea =
  api :: Api
  readOnly :: prim
  titlePlaceholder :: prim
  messagePlaceholder :: prim
  data :: ref

text \<open>The state a method runs in: the instance and the heap.\<close>

type_synonym state = "Idea \<times> heap"

definition stored :: "state \<Rightarrow> (string \<times> prim) list" where
  "stored s = cells (snd s) (data (fst s))"

definition DEFAULT_TITLE_PLACEHOLDER :: prim where
  "DEFAULT_TITLE_PLACEHOLDER = JStr ''Title''"

definition DEFAULT_MESSAGE_PLACEHOLDER :: prim where
  "DEFAULT_MESSAGE_PLACEHOLDER = JStr ''Message''"

text \<open>The getter \<open>CSS\<close>.\<close>

record css =
  baseClass :: string
  wrapper :: string
  title :: string
  input :: string
  message :: string

definition CSS :: "Idea \<Rightarrow> css" where
  "CSS this =
     \<lparr>baseClass = chars (block (styles (api this))),
      wrapper = ''cdx-idea'',
      title = ''cdx-idea__title'',
      input = chars (Styles.input (styles (api this))),
      message = ''cdx-idea__message''\<rparr>"

text \<open>
  \<open>constructor({ data, config, api, readOnly })\<close>: the four properties of the argument,
  in the order of the assignments of the source. The object literal of \<open>this.data\<close> is a
  new object of the heap.
\<close>

definition "constructor" :: "jsval \<Rightarrow> jsval \<Rightarrow> Api \<Rightarrow> prim \<Rightarrow> heap \<Rightarrow> error + state" where
  "constructor data_arg config api_arg readOnly_arg h =
     and_then (Get config ''titlePlaceholder'') (\<lambda>tp.
     and_then (Get config ''messagePlaceholder'') (\<lambda>mp.
     and_then (Get data_arg ''title'') (\<lambda>t.
     and_then (Get data_arg ''message'') (\<lambda>m.
       Inr (\<lparr>api = api_arg, readOnly = readOnly_arg,
             titlePlaceholder = logical_or tp DEFAULT_TITLE_PLACEHOLDER,
             messagePlaceholder = logical_or mp DEFAULT_MESSAGE_PLACEHOLDER,
             data = fresh h\<rparr>,
            h\<lparr>cells := (cells h)(fresh h :=
                   [(''title'', logical_or t (JStr [])),
                    (''message'', logical_or m (JStr []))]),
              fresh := Suc (fresh h)\<rparr>)))))"

text \<open>
  \<open>_make(tagName, classNames = null, attributes = {})\<close>: \<open>classNames\<close> is an array of
  names, one name or null; the attributes are assigned in the order of the object.
\<close>

datatype classNames = Array "string list" | Single string | NoNames

definition make :: "platform \<Rightarrow> string \<Rightarrow> classNames \<Rightarrow> attribute list \<Rightarrow> error + element" where
  "make P tag classNames attrs =
     and_then
       (case classNames of
          Array names \<Rightarrow> classList_add (createElement tag) names
        | Single name \<Rightarrow>
            (if name \<noteq> [] then classList_add (createElement tag) [name]
             else Inr (createElement tag))
        | NoNames \<Rightarrow> Inr (createElement tag))
       (\<lambda>el. Inr (fold (assign P) attrs el))"

text \<open>\<open>render()\<close>: the container with the title and the message region.\<close>

definition render :: "platform \<Rightarrow> state \<Rightarrow> error + (element \<times> state)" where
  "render P s =
     (let this = fst s; rec = stored s in
      and_then (make P ''div'' (Array [baseClass (CSS this), wrapper (CSS this)]) []) (\<lambda>container.
      and_then (make P ''div'' (Array [css.input (CSS this), title (CSS this)])
                  [ContentEditable (\<not> truthy (readOnly this)),
                   InnerHTML (field rec ''title'')]) (\<lambda>title_el.
      and_then (make P ''div'' (Array [css.input (CSS this), message (CSS this)])
                  [ContentEditable (\<not> truthy (readOnly this)),
                   InnerHTML (field rec ''message'')]) (\<lambda>message_el.
        Inr (appendChild
               (appendChild container
                  (dataset_set P title_el ''placeholder'' (titlePlaceholder this)))
               (dataset_set P message_el ''placeholder'' (messagePlaceholder this)),
             s)))))"

text \<open>
  \<open>save(ideaElement)\<close>: both lookups come first; reading \<open>innerHTML\<close> of null throws
  a TypeError before \<open>Object.assign\<close> is called. The result is the reference
  \<open>this.data\<close> itself.
\<close>

definition save :: "platform \<Rightarrow> state \<Rightarrow> element \<Rightarrow> error + (ref \<times> state)" where
  "save P s ideaElement =
     (let this = fst s; h = snd s;
          title_el = querySelector ideaElement (title (CSS this));
          message_el = querySelector ideaElement (message (CSS this))
      in case title_el of
           None \<Rightarrow> Inl TypeError
         | Some t \<Rightarrow>
             (case message_el of
                None \<Rightarrow> Inl TypeError
              | Some m \<Rightarrow>
                  Inr (data this,
                       (this,
                        h\<lparr>cells := (cells h)(data this :=
                             Object_assign (cells h (data this))
                               [(''title'', JStr (innerHTML P t)),
                                (''message'', JStr (innerHTML P m))])\<rparr>))))"

subsection \<open>The elements as nodes of the document\<close>

text \<open>
  \<open>_make\<close> in a document: the element it returns is the node that its call of
  \<open>document.createElement\<close> made, the next node of the document, with no child node
  appended; as a value it is what \<open>make\<close> computes.
\<close>

definition make_in ::
  "platform \<Rightarrow> document \<Rightarrow> string \<Rightarrow> classNames \<Rightarrow> attribute list \<Rightarrow> error + (nat \<times> document)" where
  "make_in P d tag classNames attrs =
     and_then (make P tag classNames attrs) (\<lambda>el.
       Inr (created d,
            d\<lparr>nodes := (nodes d)(created d := el),
              children := (children d)(created d := []),
              created := Suc (created d)\<rparr>))"

text \<open>
  An assignment to a property of the node \<open>r\<close>, and \<open>parent.appendChild(child)\<close>: the
  child is one more child node of the parent, and the value of the parent gets the child
  as it is at that moment (\<open>render\<close> does not touch a region after it was appended).
\<close>

definition update_node :: "document \<Rightarrow> nat \<Rightarrow> (element \<Rightarrow> element) \<Rightarrow> document" where
  "update_node d r f = d\<lparr>nodes := (nodes d)(r := f (nodes d r))\<rparr>"

definition appendChild_in :: "document \<Rightarrow> nat \<Rightarrow> nat \<Rightarrow> document" where
  "appendChild_in d parent child =
     d\<lparr>nodes := (nodes d)(parent := appendChild (nodes d parent) (nodes d child)),
       children := (children d)(parent := children d parent @ [child])\<rparr>"

text \<open>
  \<open>render()\<close> in a document, statement by statement: the result is the node of the
  container.
\<close>

definition render_in :: "platform \<Rightarrow> state \<Rightarrow> document \<Rightarrow> error + (nat \<times> state \<times> document)" where
  "render_in P s d =
     (let this = fst s; rec = stored s in
      and_then (make_in P d ''div'' (Array [baseClass (CSS this), wrapper (CSS this)]) [])
        (\<lambda>(container, d1).
      and_then (make_in P d1 ''div'' (Array [css.input (CSS this), title (CSS this)])
                  [ContentEditable (\<not> truthy (readOnly this)),
                   InnerHTML (field rec ''title'')])
        (\<lambda>(title_el, d2).
      and_then (make_in P d2 ''div'' (Array [css.input (CSS this), message (CSS this)])
                  [ContentEditable (\<not> truthy (readOnly this)),
                   InnerHTML (field rec ''message'')])
        (\<lambda>(message_el, d3).
        let d4 = update_node d3 title_el
                   (\<lambda>el. dataset_set P el ''placeholder'' (titlePlaceholder this));
            d5 = update_node d4 message_el
                   (\<lambda>el. dataset_set P el ''placeholder'' (messagePlaceholder this));
            d6 = appendChild_in d5 container title_el;
            d7 = appendChild_in d6 container message_el
        in Inr (container, s, d7)))))"

subsection \<open>The record invariant\<close>

text \<open>The stored record has a \<open>title\<close> and a \<open>message\<close>, and both are strings.\<close>

definition is_string :: "prim \<Rightarrow> bool" where
  "is_string v = (case v of JStr s \<Rightarrow> True | _ \<Rightarrow> False)"

definition record_strings :: "(string \<times> prim) list \<Rightarrow> bool" where
  "record_strings ps =
     ((case map_of ps ''title'' of Some v \<Rightarrow> is_string v | None \<Rightarrow> False) \<and>
      (case map_of ps ''message'' of Some v \<Rightarrow> is_string v | None \<Rightarrow> False))"

subsection \<open>Concrete inputs\<close>

text \<open>
  A platform for closed evaluations: every string is parsed as one text node and text
  nodes are serialised by their data, which is what a browser does with a string that has
  no markup character. Numbers above \<open>2^53\<close> do not occur in the evaluations; this
  platform prints them in decimal.
\<close>

definition text_platform :: platform where
  "text_platform =
     \<lparr>parseFragment = (\<lambda>s. if s = [] then [] else [Text s]),
      serializeFragment = (\<lambda>ns. concat (map (\<lambda>n. case n of Text s \<Rightarrow> s | Elem el \<Rightarrow> []) ns)),
      numberToString = (\<lambda>n. if n < 0 then CHR ''-'' # string_of_nat (nat (- n))
                              else string_of_nat (nat n))\<rparr>"

definition empty_heap :: heap where
  "empty_heap = \<lparr>cells = (\<lambda>r. []), fresh = 0\<rparr>"

text \<open>A document in which no node was made yet.\<close>

definition empty_document :: document where
  "empty_document = \<lparr>nodes = (\<lambda>r. Element [] [] [] []), children = (\<lambda>r. []), created = 0\<rparr>"

text \<open>
  The style classes of Editor.js, and a host whose input class is the marker of the
  message region.
\<close>

definition host_api :: Api where
  "host_api = \<lparr>styles = \<lparr>block = ClassName ''cdx-block'', input = ClassName ''cdx-input''\<rparr>\<rparr>"

definition clashing_api :: Api where
  "clashing_api =
     \<lparr>styles = \<lparr>block = ClassName ''cdx-block'', input = ClassName ''cdx-idea__message''\<rparr>\<rparr>"

text \<open>
  The data \<open>{title: "A", message: "B"}\<close>; the state after a construction on the empty
  heap with default placeholders and the record \<open>{title: t, message: m}\<close>; the element
  that \<open>render\<close> builds for the classes of Editor.js in the editable mode, holding the
  texts \<open>t\<close> and \<open>m\<close>.
\<close>

definition AB :: jsval where
  "AB = Obj [(''title'', JStr ''A''), (''message'', JStr ''B'')]"

definition example_state :: "Api \<Rightarrow> prim \<Rightarrow> string \<Rightarrow> string \<Rightarrow> state" where
  "example_state a ro t m =
     (\<lparr>api = a, readOnly = ro, titlePlaceholder = JStr ''Title'',
       messagePlaceholder = JStr ''Message'', data = 0\<rparr>,
      \<lparr>cells = (\<lambda>r. [])(0 := [(''title'', JStr t), (''message'', JStr m)]), fresh = 1\<rparr>)"

definition example_element :: "string \<Rightarrow> string \<Rightarrow> element" where
  "example_element t m =
     Element ''div'' [''cdx-block'', ''cdx-idea''] []
       [Elem (Element ''div'' [''cdx-input'', ''cdx-idea__title'']
                [(''contenteditable'', ''true''), (''data-placeholder'', ''Title'')] [Text t]),
        Elem (Element ''div'' [''cdx-input'', ''cdx-idea__message'']
                [(''contenteditable'', ''true''), (''data-placeholder'', ''Message'')] [Text m])]"

section \<open>What the methods compute\<close>

lemma invalid_token_chars: "invalid_token (chars c # ts) = invalid_token ts"
  using chars [of c] by simp

lemma invalid_token_markers:
  "invalid_token [''cdx-idea''] = None"
  "invalid_token [''cdx-idea__title''] = None"
  "invalid_token [''cdx-idea__message''] = None"
  by (simp_all add: ascii_whitespace_def)

lemma make_Array:
  "invalid_token names = None \<Longrightarrow>
   make P tag (Array names) attrs =
     Inr (fold (assign P) attrs (Element tag (append_tokens [] names) [] []))"
  by (simp add: make_def classList_add_def createElement_def and_then_def)

text \<open>
  \<open>render\<close> never throws: the class names of the host and the three markers are valid
  tokens. The element it returns, written out.
\<close>

lemma render_eq:
  "render P s =
     Inr (Element ''div'' (append_tokens [] [chars (block (styles (api (fst s)))), ''cdx-idea'']) []
            [Elem (Element ''div''
                     (append_tokens [] [chars (Styles.input (styles (api (fst s)))), ''cdx-idea__title''])
                     [(''contenteditable'', if truthy (readOnly (fst s)) then ''false'' else ''true''),
                      (''data-placeholder'', ToString P (titlePlaceholder (fst s)))]
                     (parseFragment P
                        (if field (stored s) ''title'' = JNull then []
                         else ToString P (field (stored s) ''title'')))),
             Elem (Element ''div''
                     (append_tokens [] [chars (Styles.input (styles (api (fst s)))), ''cdx-idea__message''])
                     [(''contenteditable'', if truthy (readOnly (fst s)) then ''false'' else ''true''),
                      (''data-placeholder'', ToString P (messagePlaceholder (fst s)))]
                     (parseFragment P
                        (if field (stored s) ''message'' = JNull then []
                         else ToString P (field (stored s) ''message''))))],
          s)"
  unfolding render_def Let_def CSS_def
  by (simp add: make_Array invalid_token_chars invalid_token_markers and_then_def
        appendChild_def dataset_set_def
        del: invalid_token.simps append_tokens.simps)

lemma save_eq:
  "save P s el =
     (case querySelector el ''cdx-idea__title'' of
        None \<Rightarrow> Inl TypeError
      | Some t \<Rightarrow>
          (case querySelector el ''cdx-idea__message'' of
             None \<Rightarrow> Inl TypeError
           | Some m \<Rightarrow>
               Inr (data (fst s),
                    (fst s,
                     (snd s)\<lparr>cells := (cells (snd s))(data (fst s) :=
                        AList.update ''message'' (JStr (innerHTML P m))
                          (AList.update ''title'' (JStr (innerHTML P t)) (stored s)))\<rparr>))))"
  by (simp add: save_def Let_def CSS_def Object_assign_def stored_def split: option.splits)

text \<open>
  \<open>render\<close> in a document makes three nodes, the container and the two regions, and
  leaves the nodes that were there as they are.
\<close>

lemma make_in_Array:
  "invalid_token names = None \<Longrightarrow>
   make_in P d tag (Array names) attrs =
     Inr (created d,
          d\<lparr>nodes := (nodes d)(created d :=
                 fold (assign P) attrs (Element tag (append_tokens [] names) [] [])),
            children := (children d)(created d := []),
            created := Suc (created d)\<rparr>)"
  by (simp add: make_in_def make_Array and_then_def)

lemma render_in_eq:
  "\<exists>d'. render_in P s d = Inr (created d, s, d') \<and>
        created d' = Suc (Suc (Suc (created d))) \<and>
        nodes d' (Suc (created d)) =
          Element ''div''
            (append_tokens [] [chars (Styles.input (styles (api (fst s)))), ''cdx-idea__title''])
            [(''contenteditable'', if truthy (readOnly (fst s)) then ''false'' else ''true''),
             (''data-placeholder'', ToString P (titlePlaceholder (fst s)))]
            (parseFragment P
               (if field (stored s) ''title'' = JNull then []
                else ToString P (field (stored s) ''title''))) \<and>
        nodes d' (Suc (Suc (created d))) =
          Element ''div''
            (append_tokens [] [chars (Styles.input (styles (api (fst s)))), ''cdx-idea__message''])
            [(''contenteditable'', if truthy (readOnly (fst s)) then ''false'' else ''true''),
             (''data-placeholder'', ToString P (messagePlaceholder (fst s)))]
            (parseFragment P
               (if field (stored s) ''message'' = JNull then []
                else ToString P (field (stored s) ''message''))) \<and>
        nodes d' (created d) =
          Element ''div'' (append_tokens [] [chars (block (styles (api (fst s)))), ''cdx-idea'']) []
            [Elem (nodes d' (Suc (created d))), Elem (nodes d' (Suc (Suc (created d))))] \<and>
        render P s = Inr (nodes d' (created d), s) \<and>
        children d' (created d) = [Suc (created d), Suc (Suc (created d))] \<and>
        (\<forall>r. r < created d \<longrightarrow> nodes d' r = nodes d r \<and> children d' r = children d r)"
  unfolding render_in_def Let_def CSS_def
  by (simp add: make_in_Array invalid_token_chars invalid_token_markers and_then_def
        update_node_def appendChild_in_def appendChild_def dataset_set_def render_eq
        del: invalid_token.simps append_tokens.simps)

lemma constructor_Obj:
  "constructor (Obj ds) (Obj cs) a ro h =
     Inr (\<lparr>api = a, readOnly = ro,
           titlePlaceholder = logical_or (field cs ''titlePlaceholder'') DEFAULT_TITLE_PLACEHOLDER,
           messagePlaceholder = logical_or (field cs ''messagePlaceholder'') DEFAULT_MESSAGE_PLACEHOLDER,
           data = fresh h\<rparr>,
          h\<lparr>cells := (cells h)(fresh h :=
                 [(''title'', logical_or (field ds ''title'') (JStr [])),
                  (''message'', logical_or (field ds ''message'') (JStr []))]),
            fresh := Suc (fresh h)\<rparr>)"
  by (simp add: constructor_def and_then_def)

lemma constructor_Inr:
  assumes "constructor d c a ro h = Inr s"
  obtains tp mp t m where
    "Get c ''titlePlaceholder'' = Inr tp" "Get c ''messagePlaceholder'' = Inr mp"
    "Get d ''title'' = Inr t" "Get d ''message'' = Inr m"
    "s = (\<lparr>api = a, readOnly = ro,
           titlePlaceholder = logical_or tp DEFAULT_TITLE_PLACEHOLDER,
           messagePlaceholder = logical_or mp DEFAULT_MESSAGE_PLACEHOLDER,
           data = fresh h\<rparr>,
          h\<lparr>cells := (cells h)(fresh h :=
                 [(''title'', logical_or t (JStr [])),
                  (''message'', logical_or m (JStr []))]),
            fresh := Suc (fresh h)\<rparr>)"
  using assms unfolding constructor_def and_then_def
  by (auto split: sum.splits)

lemma Get_Prim:
  "Get (Prim p) k = (if p = JUndefined \<or> p = JNull then Inl TypeError else Inr JUndefined)"
  by (cases p) simp_all

text \<open>
  A render followed by a save on the element as it is, for a record of two strings: the
  lookups find the two regions, and the assignment writes the values the record has.
\<close>

lemma save_render:
  assumes st: "stored s = [(''title'', JStr t), (''message'', JStr m)]"
    and inp: "chars (Styles.input (styles (api (fst s)))) \<noteq> ''cdx-idea__message''"
    and rt: "serializeFragment P (parseFragment P t) = t"
    and rm: "serializeFragment P (parseFragment P m) = m"
    and nomark: "first_with_class ''cdx-idea__message'' (parseFragment P t) = None"
  shows "\<exists>e. render P s = Inr (e, s) \<and> save P s e = Inr (data (fst s), s)"
proof -
  have upd: "(snd s)\<lparr>cells := (cells (snd s))(data (fst s) := stored s)\<rparr> = snd s"
    by (simp add: stored_def)
  show ?thesis
    using st inp rt rm nomark upd
    by (simp add: render_eq save_eq querySelector_def innerHTML_def field_def)
qed

subsection \<open>The concrete inputs, evaluated\<close>

lemma chars_ClassName:
  "chars (ClassName ''cdx-block'') = ''cdx-block''"
  "chars (ClassName ''cdx-input'') = ''cdx-input''"
  "chars (ClassName ''cdx-idea__message'') = ''cdx-idea__message''"
  by (simp_all add: ClassName_inverse ascii_whitespace_def)

lemma constructor_example:
  "constructor AB (Obj []) a ro empty_heap = Inr (example_state a ro ''A'' ''B'')"
  by (simp add: constructor_Obj AB_def example_state_def empty_heap_def field_def logical_or_def
        DEFAULT_TITLE_PLACEHOLDER_def DEFAULT_MESSAGE_PLACEHOLDER_def)

lemma render_example:
  "render text_platform (example_state host_api (JBool False) ''A'' ''B'') =
     Inr (example_element ''A'' ''B'', example_state host_api (JBool False) ''A'' ''B'')"
  by (simp add: render_eq example_state_def example_element_def host_api_def chars_ClassName
        text_platform_def stored_def field_def)

lemma save_example:
  "save text_platform (example_state host_api ro t m) (example_element ''X'' ''Y'') =
     Inr (0, example_state host_api ro ''X'' ''Y'')"
  by (simp add: save_eq querySelector_def innerHTML_def example_state_def example_element_def
        text_platform_def stored_def)

section \<open>The claims\<close>

subsection \<open>Construction\<close>

text \<open>
  C2. Constructing with a \<open>data\<close> object and a \<open>config\<close> object succeeds, and every
  absent property gets its default: an absent \<open>title\<close> or \<open>message\<close> is stored as the empty
  string (so \<open>data = {}\<close> gives the record \<open>{title: "", message: ""}\<close>), an absent
  \<open>titlePlaceholder\<close> is stored as \<open>"Title"\<close> and an absent \<open>messagePlaceholder\<close> as
  \<open>"Message"\<close>.
\<close>

theorem constructor_defaults:
  "\<exists>s. constructor (Obj ds) (Obj cs) a ro h = Inr s \<and>
       (map_of ds ''title'' = None \<longrightarrow> field (stored s) ''title'' = JStr []) \<and>
       (map_of ds ''message'' = None \<longrightarrow> field (stored s) ''message'' = JStr []) \<and>
       (map_of ds ''title'' = None \<and> map_of ds ''message'' = None \<longrightarrow>
          stored s = [(''title'', JStr []), (''message'', JStr [])]) \<and>
       (map_of cs ''titlePlaceholder'' = None \<longrightarrow> titlePlaceholder (fst s) = JStr ''Title'') \<and>
       (map_of cs ''messagePlaceholder'' = None \<longrightarrow> messagePlaceholder (fst s) = JStr ''Message'')"
  by (simp add: constructor_Obj stored_def field_def logical_or_def
        DEFAULT_TITLE_PLACEHOLDER_def DEFAULT_MESSAGE_PLACEHOLDER_def)

text \<open>The construction with \<open>data = {}\<close> and \<open>config = {}\<close>.\<close>

theorem constructor_defaults_empty:
  "\<exists>s. constructor (Obj []) (Obj []) host_api (JBool False) empty_heap = Inr s \<and>
       stored s = [(''title'', JStr []), (''message'', JStr [])] \<and>
       titlePlaceholder (fst s) = JStr ''Title'' \<and>
       messagePlaceholder (fst s) = JStr ''Message''"
  using constructor_defaults [of "[]" "[]" host_api "JBool False" empty_heap]
  by (auto simp add: field_def)

text \<open>
  C3. Construction succeeds exactly when neither \<open>data\<close> nor \<open>config\<close> is undefined or
  null, whatever properties they have or omit and whatever \<open>api\<close> and \<open>readOnly\<close> are; in
  particular it succeeds for every pair of objects. When \<open>data\<close> or \<open>config\<close> is undefined
  or null it throws a TypeError.
\<close>

theorem constructor_throws_iff_nullish:
  "(\<exists>s. constructor d c a ro h = Inr s) =
     (d \<noteq> Prim JUndefined \<and> d \<noteq> Prim JNull \<and> c \<noteq> Prim JUndefined \<and> c \<noteq> Prim JNull) \<and>
   (constructor d c a ro h = Inl TypeError) =
     (d = Prim JUndefined \<or> d = Prim JNull \<or> c = Prim JUndefined \<or> c = Prim JNull) \<and>
   (\<exists>s. constructor (Obj ds) (Obj cs) a ro h = Inr s)"
proof (cases d; cases c)
  fix p q assume "d = Prim p" and "c = Prim q"
  then show ?thesis
    by (simp add: constructor_def and_then_def Get_Prim constructor_Obj)
next
  fix p cs' assume "d = Prim p" and "c = Obj cs'"
  then show ?thesis
    by (simp add: constructor_def and_then_def Get_Prim constructor_Obj)
next
  fix ds' q assume "d = Obj ds'" and "c = Prim q"
  then show ?thesis
    by (simp add: constructor_def and_then_def Get_Prim constructor_Obj)
next
  fix ds' cs' assume "d = Obj ds'" and "c = Obj cs'"
  then show ?thesis
    by (simp add: constructor_Obj)
qed

text \<open>The construction without a \<open>config\<close> throws.\<close>

theorem constructor_without_config:
  "constructor (Obj []) (Prim JUndefined) host_api (JBool False) empty_heap = Inl TypeError"
  by (simp add: constructor_def and_then_def)

text \<open>
  C9. Constructing with objects: a \<open>title\<close> or \<open>message\<close> that is undefined, null,
  false, 0, NaN or the empty string is stored as the empty string, and a
  \<open>titlePlaceholder\<close> or \<open>messagePlaceholder\<close> that is the empty string is replaced by
  \<open>"Title"\<close> or \<open>"Message"\<close>.
\<close>

theorem constructor_falsy:
  "\<exists>s. constructor (Obj ds) (Obj cs) a ro h = Inr s \<and>
       (field ds ''title'' \<in> {JUndefined, JNull, JBool False, JNum 0, JNaN, JStr []} \<longrightarrow>
          field (stored s) ''title'' = JStr []) \<and>
       (field ds ''message'' \<in> {JUndefined, JNull, JBool False, JNum 0, JNaN, JStr []} \<longrightarrow>
          field (stored s) ''message'' = JStr []) \<and>
       (field cs ''titlePlaceholder'' = JStr [] \<longrightarrow> titlePlaceholder (fst s) = JStr ''Title'') \<and>
       (field cs ''messagePlaceholder'' = JStr [] \<longrightarrow> messagePlaceholder (fst s) = JStr ''Message'')"
  by (auto simp add: constructor_Obj stored_def field_def logical_or_def
        DEFAULT_TITLE_PLACEHOLDER_def DEFAULT_MESSAGE_PLACEHOLDER_def)

text \<open>The construction with \<open>{title: 0, message: null}\<close> and two empty placeholders.\<close>

theorem constructor_falsy_values:
  "\<exists>s. constructor (Obj [(''title'', JNum 0), (''message'', JNull)])
          (Obj [(''titlePlaceholder'', JStr []), (''messagePlaceholder'', JStr [])])
          host_api (JBool False) empty_heap = Inr s \<and>
       field (stored s) ''title'' = JStr [] \<and> field (stored s) ''message'' = JStr [] \<and>
       titlePlaceholder (fst s) = JStr ''Title'' \<and> messagePlaceholder (fst s) = JStr ''Message''"
  using constructor_falsy [of "[(''title'', JNum 0), (''message'', JNull)]"
      "[(''titlePlaceholder'', JStr []), (''messagePlaceholder'', JStr [])]"
      host_api "JBool False" empty_heap]
  by (auto simp add: field_def)

subsection \<open>Saving\<close>

text \<open>
  C4. For every widget and every element in which the lookups of the title marker and of
  the message marker find the regions \<open>t\<close> and \<open>m\<close>: \<open>save\<close> returns the reference
  \<open>this.data\<close> itself, the instance is as before, and the object at that reference is
  the stored record with \<open>title\<close> and \<open>message\<close> overwritten by the markup of \<open>t\<close> and of
  \<open>m\<close>.
\<close>

theorem save_overwrites_in_place:
  assumes "querySelector el ''cdx-idea__title'' = Some t"
    and "querySelector el ''cdx-idea__message'' = Some m"
  shows "\<exists>s'. save P s el = Inr (data (fst s), s') \<and>
           fst s' = fst s \<and>
           stored s' = AList.update ''message'' (JStr (innerHTML P m))
                         (AList.update ''title'' (JStr (innerHTML P t)) (stored s)) \<and>
           field (stored s') ''title'' = JStr (innerHTML P t) \<and>
           field (stored s') ''message'' = JStr (innerHTML P m)"
  using assms by (simp add: save_eq stored_def field_def update_conv')

text \<open>
  Saving the rendered element after the texts were edited to \<open>X\<close> and \<open>Y\<close>, on the record
  \<open>{title: "A", message: "B"}\<close>.
\<close>

theorem save_overwrites_edited:
  "querySelector (example_element ''X'' ''Y'') ''cdx-idea__title'' =
     Some (Element ''div'' [''cdx-input'', ''cdx-idea__title'']
             [(''contenteditable'', ''true''), (''data-placeholder'', ''Title'')] [Text ''X'']) \<and>
   querySelector (example_element ''X'' ''Y'') ''cdx-idea__message'' =
     Some (Element ''div'' [''cdx-input'', ''cdx-idea__message'']
             [(''contenteditable'', ''true''), (''data-placeholder'', ''Message'')] [Text ''Y'']) \<and>
   (\<exists>s'. save text_platform (example_state host_api (JBool False) ''A'' ''B'')
           (example_element ''X'' ''Y'') = Inr (0, s') \<and>
         stored s' = [(''title'', JStr ''X''), (''message'', JStr ''Y'')])"
proof -
  have t: "querySelector (example_element ''X'' ''Y'') ''cdx-idea__title'' =
     Some (Element ''div'' [''cdx-input'', ''cdx-idea__title'']
             [(''contenteditable'', ''true''), (''data-placeholder'', ''Title'')] [Text ''X''])"
    by (simp add: querySelector_def example_element_def)
  have m: "querySelector (example_element ''X'' ''Y'') ''cdx-idea__message'' =
     Some (Element ''div'' [''cdx-input'', ''cdx-idea__message'']
             [(''contenteditable'', ''true''), (''data-placeholder'', ''Message'')] [Text ''Y''])"
    by (simp add: querySelector_def example_element_def)
  from save_overwrites_in_place [OF t m, of text_platform "example_state host_api (JBool False) ''A'' ''B''"]
  obtain s' where
    "save text_platform (example_state host_api (JBool False) ''A'' ''B'') (example_element ''X'' ''Y'')
       = Inr (data (fst (example_state host_api (JBool False) ''A'' ''B'')), s')"
    and "stored s' = AList.update ''message'' (JStr (innerHTML text_platform
              (Element ''div'' [''cdx-input'', ''cdx-idea__message'']
                 [(''contenteditable'', ''true''), (''data-placeholder'', ''Message'')] [Text ''Y''])))
           (AList.update ''title'' (JStr (innerHTML text_platform
              (Element ''div'' [''cdx-input'', ''cdx-idea__title'']
                 [(''contenteditable'', ''true''), (''data-placeholder'', ''Title'')] [Text ''X''])))
              (stored (example_state host_api (JBool False) ''A'' ''B'')))"
    by blast
  then have "save text_platform (example_state host_api (JBool False) ''A'' ''B'')
           (example_element ''X'' ''Y'') = Inr (0, s') \<and>
         stored s' = [(''title'', JStr ''X''), (''message'', JStr ''Y'')]"
    by (simp add: example_state_def stored_def innerHTML_def text_platform_def)
  with t m show ?thesis
    by blast
qed

text \<open>
  C5. \<open>save\<close> throws a TypeError exactly when the lookup of the title marker or the
  lookup of the message marker finds no element, and it returns (the reference and the
  new state) exactly when both lookups find one; it has no other outcome.
\<close>

theorem save_fault_iff_region_missing:
  "(save P s el = Inl TypeError) =
     (querySelector el ''cdx-idea__title'' = None \<or> querySelector el ''cdx-idea__message'' = None) \<and>
   (\<exists>r s'. save P s el = Inr (r, s')) =
     (querySelector el ''cdx-idea__title'' \<noteq> None \<and> querySelector el ''cdx-idea__message'' \<noteq> None) \<and>
   save P s el \<noteq> Inl SyntaxError \<and> save P s el \<noteq> Inl InvalidCharacterError"
  by (auto simp add: save_eq split: option.splits)

text \<open>An element with a title region and no message region.\<close>

theorem save_fault_without_message_region:
  "querySelector
     (Element ''div'' [''cdx-block'', ''cdx-idea''] []
        [Elem (Element ''div'' [''cdx-input'', ''cdx-idea__title''] [] [Text ''X''])])
     ''cdx-idea__message'' = None \<and>
   save text_platform (example_state host_api (JBool False) ''A'' ''B'')
     (Element ''div'' [''cdx-block'', ''cdx-idea''] []
        [Elem (Element ''div'' [''cdx-input'', ''cdx-idea__title''] [] [Text ''X''])]) =
     Inl TypeError"
proof -
  have q: "querySelector
     (Element ''div'' [''cdx-block'', ''cdx-idea''] []
        [Elem (Element ''div'' [''cdx-input'', ''cdx-idea__title''] [] [Text ''X''])])
     ''cdx-idea__message'' = None"
    by (simp add: querySelector_def)
  from save_fault_iff_region_missing [of text_platform
      "example_state host_api (JBool False) ''A'' ''B''"
      "Element ''div'' [''cdx-block'', ''cdx-idea''] []
        [Elem (Element ''div'' [''cdx-input'', ''cdx-idea__title''] [] [Text ''X''])]"] q
  show ?thesis
    by simp
qed

text \<open>
  C10. A \<open>save\<close> that returns leaves the instance as it was (the capability object, the
  read-only flag, both placeholders and the reference \<open>this.data\<close>), allocates nothing,
  changes no object of the heap but the stored record, and in the stored record no
  property but \<open>title\<close> and \<open>message\<close>.
\<close>

theorem save_frame:
  assumes "save P s el = Inr (r, s')"
  shows "api (fst s') = api (fst s) \<and> readOnly (fst s') = readOnly (fst s) \<and>
         titlePlaceholder (fst s') = titlePlaceholder (fst s) \<and>
         messagePlaceholder (fst s') = messagePlaceholder (fst s) \<and>
         data (fst s') = data (fst s) \<and>
         fresh (snd s') = fresh (snd s) \<and>
         (\<forall>r'. r' \<noteq> data (fst s) \<longrightarrow> cells (snd s') r' = cells (snd s) r') \<and>
         (\<forall>k. k \<noteq> ''title'' \<longrightarrow> k \<noteq> ''message'' \<longrightarrow>
              map_of (stored s') k = map_of (stored s) k)"
  using assms by (auto simp add: save_eq stored_def update_conv' split: option.splits)

text \<open>The same save of the edited element: the instance and the allocator are unchanged.\<close>

theorem save_frame_edited:
  "save text_platform (example_state host_api (JBool False) ''A'' ''B'') (example_element ''X'' ''Y'') =
     Inr (0, example_state host_api (JBool False) ''X'' ''Y'') \<and>
   fst (example_state host_api (JBool False) ''X'' ''Y'') =
     fst (example_state host_api (JBool False) ''A'' ''B'') \<and>
   fresh (snd (example_state host_api (JBool False) ''X'' ''Y'')) =
     fresh (snd (example_state host_api (JBool False) ''A'' ''B'')) \<and>
   cells (snd (example_state host_api (JBool False) ''X'' ''Y'')) 1 =
     cells (snd (example_state host_api (JBool False) ''A'' ''B'')) 1"
proof -
  have sv: "save text_platform (example_state host_api (JBool False) ''A'' ''B'')
      (example_element ''X'' ''Y'') = Inr (0, example_state host_api (JBool False) ''X'' ''Y'')"
    by (rule save_example)
  from save_frame [OF sv] sv show ?thesis
    by (simp add: example_state_def)
qed

subsection \<open>Rendering\<close>

text \<open>
  C6. For every widget constructed with the read-only flag \<open>b\<close>, \<open>render\<close> returns a
  \<open>div\<close> whose two children are the title region and the message region, and the
  attribute \<open>contenteditable\<close> of both regions is \<open>false\<close> when \<open>b\<close> is true and \<open>true\<close>
  when \<open>b\<close> is false.
\<close>

theorem render_readOnly:
  assumes "constructor d c a (JBool b) h = Inr s"
  shows "\<exists>cl tcl tat tch mcl mat mch.
           render P s = Inr (Element ''div'' cl []
                               [Elem (Element ''div'' tcl tat tch),
                                Elem (Element ''div'' mcl mat mch)], s) \<and>
           ''cdx-idea__title'' \<in> set tcl \<and> ''cdx-idea__message'' \<in> set mcl \<and>
           map_of tat ''contenteditable'' = Some (if b then ''false'' else ''true'') \<and>
           map_of mat ''contenteditable'' = Some (if b then ''false'' else ''true'')"
proof -
  from assms have "readOnly (fst s) = JBool b"
    by (elim constructor_Inr) simp
  then show ?thesis
    by (simp add: render_eq)
qed

text \<open>The widget constructed with \<open>{title: "A", message: "B"}\<close> and \<open>readOnly = true\<close>.\<close>

theorem render_readOnly_true:
  "constructor AB (Obj []) host_api (JBool True) empty_heap =
     Inr (example_state host_api (JBool True) ''A'' ''B'') \<and>
   (\<exists>cl tcl tat tch mcl mat mch.
      render text_platform (example_state host_api (JBool True) ''A'' ''B'') =
        Inr (Element ''div'' cl []
               [Elem (Element ''div'' tcl tat tch), Elem (Element ''div'' mcl mat mch)],
             example_state host_api (JBool True) ''A'' ''B'') \<and>
      ''cdx-idea__title'' \<in> set tcl \<and> ''cdx-idea__message'' \<in> set mcl \<and>
      map_of tat ''contenteditable'' = Some ''false'' \<and>
      map_of mat ''contenteditable'' = Some ''false'')"
proof -
  have c: "constructor AB (Obj []) host_api (JBool True) empty_heap =
      Inr (example_state host_api (JBool True) ''A'' ''B'')"
    by (rule constructor_example)
  from render_readOnly [OF c, of text_platform] c show ?thesis
    by simp
qed

text \<open>
  C7. For every widget, two calls of \<open>render\<close> one after the other, in any document,
  both return, and neither changes the state: the stored record, the placeholders and the
  read-only flag are as before. Each call returns a container with its two regions, and
  the six elements are six different nodes, each one made by its own call; the second
  call leaves the elements of the first as they are. The two containers are equal as
  values, and so are the two title regions and the two message regions: the same class
  lists (the host's class and the marker), the same placeholder attribute (the string of
  the widget's placeholder) and the same content (the parsed markup of the stored
  field). The container is the element that \<open>render\<close> returns as a value.
\<close>

theorem render_twice_independent:
  "\<exists>c1 t1 m1 d1 c2 t2 m2 d2.
     render_in P s d = Inr (c1, s, d1) \<and> render_in P s d1 = Inr (c2, s, d2) \<and>
     children d2 c1 = [t1, m1] \<and> children d2 c2 = [t2, m2] \<and>
     distinct [c1, t1, m1, c2, t2, m2] \<and>
     created d \<le> c1 \<and> created d \<le> t1 \<and> created d \<le> m1 \<and>
     created d1 \<le> c2 \<and> created d1 \<le> t2 \<and> created d1 \<le> m2 \<and>
     nodes d2 c1 = nodes d1 c1 \<and> nodes d2 t1 = nodes d1 t1 \<and> nodes d2 m1 = nodes d1 m1 \<and>
     nodes d2 c2 = nodes d2 c1 \<and> nodes d2 t2 = nodes d2 t1 \<and> nodes d2 m2 = nodes d2 m1 \<and>
     render P s = Inr (nodes d2 c1, s) \<and>
     childNodes (nodes d2 c1) = [Elem (nodes d2 t1), Elem (nodes d2 m1)] \<and>
     classList (nodes d2 c1) =
       append_tokens [] [chars (block (styles (api (fst s)))), ''cdx-idea''] \<and>
     classList (nodes d2 t1) =
       append_tokens [] [chars (Styles.input (styles (api (fst s)))), ''cdx-idea__title''] \<and>
     classList (nodes d2 m1) =
       append_tokens [] [chars (Styles.input (styles (api (fst s)))), ''cdx-idea__message''] \<and>
     map_of (attributes (nodes d2 t1)) ''data-placeholder'' =
       Some (ToString P (titlePlaceholder (fst s))) \<and>
     map_of (attributes (nodes d2 m1)) ''data-placeholder'' =
       Some (ToString P (messagePlaceholder (fst s))) \<and>
     childNodes (nodes d2 t1) =
       parseFragment P (if field (stored s) ''title'' = JNull then []
                        else ToString P (field (stored s) ''title'')) \<and>
     childNodes (nodes d2 m1) =
       parseFragment P (if field (stored s) ''message'' = JNull then []
                        else ToString P (field (stored s) ''message''))"
proof -
  let ?T = "Element ''div''
            (append_tokens [] [chars (Styles.input (styles (api (fst s)))), ''cdx-idea__title''])
            [(''contenteditable'', if truthy (readOnly (fst s)) then ''false'' else ''true''),
             (''data-placeholder'', ToString P (titlePlaceholder (fst s)))]
            (parseFragment P
               (if field (stored s) ''title'' = JNull then []
                else ToString P (field (stored s) ''title'')))"
  let ?M = "Element ''div''
            (append_tokens [] [chars (Styles.input (styles (api (fst s)))), ''cdx-idea__message''])
            [(''contenteditable'', if truthy (readOnly (fst s)) then ''false'' else ''true''),
             (''data-placeholder'', ToString P (messagePlaceholder (fst s)))]
            (parseFragment P
               (if field (stored s) ''message'' = JNull then []
                else ToString P (field (stored s) ''message'')))"
  from render_in_eq [of P s d] obtain d1 where
    r1: "render_in P s d = Inr (created d, s, d1)"
    and k1: "created d1 = Suc (Suc (Suc (created d)))"
    and t1: "nodes d1 (Suc (created d)) = ?T"
    and m1: "nodes d1 (Suc (Suc (created d))) = ?M"
    and c1: "nodes d1 (created d) =
          Element ''div'' (append_tokens [] [chars (block (styles (api (fst s)))), ''cdx-idea'']) []
            [Elem (nodes d1 (Suc (created d))), Elem (nodes d1 (Suc (Suc (created d))))]"
    and v1: "render P s = Inr (nodes d1 (created d), s)"
    and ch1: "children d1 (created d) = [Suc (created d), Suc (Suc (created d))]"
    by blast
  from render_in_eq [of P s d1] obtain d2 where
    r2: "render_in P s d1 = Inr (created d1, s, d2)"
    and t2: "nodes d2 (Suc (created d1)) = ?T"
    and m2: "nodes d2 (Suc (Suc (created d1))) = ?M"
    and c2: "nodes d2 (created d1) =
          Element ''div'' (append_tokens [] [chars (block (styles (api (fst s)))), ''cdx-idea'']) []
            [Elem (nodes d2 (Suc (created d1))), Elem (nodes d2 (Suc (Suc (created d1))))]"
    and ch2: "children d2 (created d1) = [Suc (created d1), Suc (Suc (created d1))]"
    and old: "\<And>r. r < created d1 \<Longrightarrow> nodes d2 r = nodes d1 r \<and> children d2 r = children d1 r"
    by blast
  have o0: "nodes d2 (created d) = nodes d1 (created d)"
      "children d2 (created d) = children d1 (created d)"
    and o1: "nodes d2 (Suc (created d)) = nodes d1 (Suc (created d))"
    and o2: "nodes d2 (Suc (Suc (created d))) = nodes d1 (Suc (Suc (created d)))"
    using old k1 by simp_all
  show ?thesis
    apply (rule exI [of _ "created d"])
    apply (rule exI [of _ "Suc (created d)"])
    apply (rule exI [of _ "Suc (Suc (created d))"])
    apply (rule exI [of _ d1])
    apply (rule exI [of _ "created d1"])
    apply (rule exI [of _ "Suc (created d1)"])
    apply (rule exI [of _ "Suc (Suc (created d1))"])
    apply (rule exI [of _ d2])
    using r1 r2 k1 c1 t1 m1 v1 ch1 c2 t2 m2 ch2 o0 o1 o2
    apply (simp del: append_tokens.simps)
    done
qed

text \<open>
  Two calls in the empty document, for the widget constructed with
  \<open>{title: "A", message: "B"}\<close>: the containers are the nodes 0 and 3.
\<close>

theorem render_twice_example:
  "\<exists>t1 m1 d1 t2 m2 d2.
     render_in text_platform (example_state host_api (JBool False) ''A'' ''B'') empty_document =
       Inr (0, example_state host_api (JBool False) ''A'' ''B'', d1) \<and>
     render_in text_platform (example_state host_api (JBool False) ''A'' ''B'') d1 =
       Inr (3, example_state host_api (JBool False) ''A'' ''B'', d2) \<and>
     children d2 0 = [t1, m1] \<and> children d2 3 = [t2, m2] \<and>
     distinct [0, t1, m1, 3, t2, m2] \<and>
     nodes d2 0 = example_element ''A'' ''B'' \<and> nodes d2 3 = example_element ''A'' ''B''"
proof -
  let ?s = "example_state host_api (JBool False) ''A'' ''B''"
  from render_twice_independent [of text_platform ?s empty_document]
  obtain c1 t1 m1 d1 c2 t2 m2 d2 where
    r1: "render_in text_platform ?s empty_document = Inr (c1, ?s, d1)"
    and r2: "render_in text_platform ?s d1 = Inr (c2, ?s, d2)"
    and ch: "children d2 c1 = [t1, m1]" "children d2 c2 = [t2, m2]"
    and di: "distinct [c1, t1, m1, c2, t2, m2]"
    and eq: "nodes d2 c2 = nodes d2 c1"
    and rv: "render text_platform ?s = Inr (nodes d2 c1, ?s)"
    by blast
  from render_in_eq [of text_platform ?s empty_document] r1
  have z: "c1 = 0" and k: "created d1 = 3"
    by (auto simp add: empty_document_def)
  from render_in_eq [of text_platform ?s d1] r2 k have three: "c2 = 3"
    by auto
  from rv have v: "nodes d2 c1 = example_element ''A'' ''B''"
    by (simp add: render_example)
  from z three v r1 r2 ch di eq show ?thesis
    by auto
qed

subsection \<open>The stored record\<close>

text \<open>
  C8. After a construction the stored record has a \<open>title\<close> and a \<open>message\<close> that are
  both strings exactly when each of the two values of \<open>data\<close> is a string or falsy (a
  truthy value that is not a string is stored as it is); after every \<open>save\<close> that
  returns, both are strings; \<open>render\<close> leaves the stored record as it is.
\<close>

theorem record_strings_invariant:
  "(constructor d c a ro h = Inr s \<longrightarrow> Get d ''title'' = Inr t \<longrightarrow> Get d ''message'' = Inr m \<longrightarrow>
      record_strings (stored s) = ((is_string t \<or> \<not> truthy t) \<and> (is_string m \<or> \<not> truthy m))) \<and>
   (save P s0 el = Inr (r, s1) \<longrightarrow> record_strings (stored s1)) \<and>
   (render P s0 = Inr (e, s2) \<longrightarrow> stored s2 = stored s0)"
proof (intro conjI impI)
  assume "constructor d c a ro h = Inr s" and "Get d ''title'' = Inr t"
    and "Get d ''message'' = Inr m"
  then show "record_strings (stored s) =
      ((is_string t \<or> \<not> truthy t) \<and> (is_string m \<or> \<not> truthy m))"
    by (elim constructor_Inr)
      (auto simp add: stored_def record_strings_def logical_or_def is_string_def)
next
  assume "save P s0 el = Inr (r, s1)"
  then show "record_strings (stored s1)"
    by (auto simp add: save_eq stored_def record_strings_def is_string_def update_conv'
          split: option.splits)
next
  assume "render P s0 = Inr (e, s2)"
  then show "stored s2 = stored s0"
    by (simp add: render_eq)
qed

text \<open>
  The construction with \<open>{title: "A", message: "B"}\<close>, the save of the edited element and
  the render.
\<close>

theorem record_strings_example:
  "constructor AB (Obj []) host_api (JBool False) empty_heap =
     Inr (example_state host_api (JBool False) ''A'' ''B'') \<and>
   record_strings (stored (example_state host_api (JBool False) ''A'' ''B'')) \<and>
   save text_platform (example_state host_api (JBool False) ''A'' ''B'') (example_element ''X'' ''Y'') =
     Inr (0, example_state host_api (JBool False) ''X'' ''Y'') \<and>
   record_strings (stored (example_state host_api (JBool False) ''X'' ''Y'')) \<and>
   render text_platform (example_state host_api (JBool False) ''A'' ''B'') =
     Inr (example_element ''A'' ''B'', example_state host_api (JBool False) ''A'' ''B'')"
proof -
  have c: "constructor AB (Obj []) host_api (JBool False) empty_heap =
      Inr (example_state host_api (JBool False) ''A'' ''B'')"
    by (rule constructor_example)
  have t: "Get AB ''title'' = Inr (JStr ''A'')" and m: "Get AB ''message'' = Inr (JStr ''B'')"
    by (simp_all add: AB_def field_def)
  have sv: "save text_platform (example_state host_api (JBool False) ''A'' ''B'')
      (example_element ''X'' ''Y'') = Inr (0, example_state host_api (JBool False) ''X'' ''Y'')"
    by (rule save_example)
  have rn: "render text_platform (example_state host_api (JBool False) ''A'' ''B'') =
      Inr (example_element ''A'' ''B'', example_state host_api (JBool False) ''A'' ''B'')"
    by (rule render_example)
  from record_strings_invariant [of AB "Obj []" host_api "JBool False" empty_heap
      "example_state host_api (JBool False) ''A'' ''B''" "JStr ''A''" "JStr ''B''"
      text_platform "example_state host_api (JBool False) ''A'' ''B''" "example_element ''X'' ''Y''"
      0 "example_state host_api (JBool False) ''X'' ''Y''" "example_element ''A'' ''B''"
      "example_state host_api (JBool False) ''A'' ''B''"]
    c t m sv rn
  show ?thesis
    by (simp add: is_string_def)
qed

text \<open>The construction with \<open>{title: 5}\<close> stores the number 5 as the title.\<close>

theorem constructor_keeps_number:
  "constructor (Obj [(''title'', JNum 5)]) (Obj []) host_api (JBool False) empty_heap =
     Inr (\<lparr>api = host_api, readOnly = JBool False, titlePlaceholder = JStr ''Title'',
           messagePlaceholder = JStr ''Message'', data = 0\<rparr>,
          \<lparr>cells = (\<lambda>r. [])(0 := [(''title'', JNum 5), (''message'', JStr [])]), fresh = 1\<rparr>) \<and>
   \<not> record_strings [(''title'', JNum 5), (''message'', JStr [])]"
  by (simp add: constructor_Obj empty_heap_def field_def logical_or_def record_strings_def
        is_string_def DEFAULT_TITLE_PLACEHOLDER_def DEFAULT_MESSAGE_PLACEHOLDER_def)

subsection \<open>Rendering and saving\<close>

text \<open>
  C1. For every widget constructed with a \<open>data\<close> whose title \<open>t\<close> and message \<open>m\<close> are
  strings (such as \<open>{title: "A", message: "B"}\<close>): when the input class of the host is not
  the marker \<open>cdx-idea__message\<close>, the browser serialises the parsed \<open>t\<close> and the parsed \<open>m\<close>
  back to \<open>t\<close> and \<open>m\<close>, and the parsed \<open>t\<close> has no element of the class
  \<open>cdx-idea__message\<close>, then \<open>render\<close> followed by \<open>save\<close> on the element it returned
  returns the stored record, which is \<open>{title: t, message: m}\<close> as before, and the state is
  unchanged.
\<close>

theorem render_save_roundtrip:
  assumes "constructor d c a ro h = Inr s"
    and "Get d ''title'' = Inr (JStr t)" and "Get d ''message'' = Inr (JStr m)"
    and "chars (Styles.input (styles a)) \<noteq> ''cdx-idea__message''"
    and "serializeFragment P (parseFragment P t) = t"
    and "serializeFragment P (parseFragment P m) = m"
    and "first_with_class ''cdx-idea__message'' (parseFragment P t) = None"
  shows "\<exists>e s'. render P s = Inr (e, s) \<and> save P s e = Inr (data (fst s), s') \<and>
           stored s' = [(''title'', JStr t), (''message'', JStr m)] \<and> s' = s"
proof -
  from assms(1-3) have st: "stored s = [(''title'', JStr t), (''message'', JStr m)]"
    and ap: "api (fst s) = a"
    by (auto elim!: constructor_Inr simp add: stored_def logical_or_def)
  from assms(4) ap have "chars (Styles.input (styles (api (fst s)))) \<noteq> ''cdx-idea__message''"
    by simp
  from save_render [OF st this assms(5-7)] obtain e
    where "render P s = Inr (e, s)" and "save P s e = Inr (data (fst s), s)"
    by blast
  with st show ?thesis
    by blast
qed

text \<open>The widget constructed with \<open>{title: "A", message: "B"}\<close> on the classes of Editor.js.\<close>

theorem render_save_roundtrip_AB:
  "constructor AB (Obj []) host_api (JBool False) empty_heap =
     Inr (example_state host_api (JBool False) ''A'' ''B'') \<and>
   (\<exists>e s'. render text_platform (example_state host_api (JBool False) ''A'' ''B'') =
             Inr (e, example_state host_api (JBool False) ''A'' ''B'') \<and>
           save text_platform (example_state host_api (JBool False) ''A'' ''B'') e = Inr (0, s') \<and>
           stored s' = [(''title'', JStr ''A''), (''message'', JStr ''B'')])"
proof -
  have c: "constructor AB (Obj []) host_api (JBool False) empty_heap =
      Inr (example_state host_api (JBool False) ''A'' ''B'')"
    by (rule constructor_example)
  have t: "Get AB ''title'' = Inr (JStr ''A'')" and m: "Get AB ''message'' = Inr (JStr ''B'')"
    by (simp_all add: AB_def field_def)
  have i: "chars (Styles.input (styles host_api)) \<noteq> ''cdx-idea__message''"
    by (simp add: host_api_def chars_ClassName)
  have p: "serializeFragment text_platform (parseFragment text_platform ''A'') = ''A''"
    "serializeFragment text_platform (parseFragment text_platform ''B'') = ''B''"
    "first_with_class ''cdx-idea__message'' (parseFragment text_platform ''A'') = None"
    by (simp_all add: text_platform_def)
  have d0: "data (fst (example_state host_api (JBool False) ''A'' ''B'')) = 0"
    by (simp add: example_state_def)
  have "\<exists>e s'. render text_platform (example_state host_api (JBool False) ''A'' ''B'') =
             Inr (e, example_state host_api (JBool False) ''A'' ''B'') \<and>
           save text_platform (example_state host_api (JBool False) ''A'' ''B'') e = Inr (0, s') \<and>
           stored s' = [(''title'', JStr ''A''), (''message'', JStr ''B'')]"
    using render_save_roundtrip [OF c t m i p] unfolding d0
    by blast
  with c show ?thesis
    by blast
qed

text \<open>
  With the input class \<open>cdx-idea__message\<close> the title region carries the message marker
  too and is the first element the lookup of the message finds: the widget constructed
  with \<open>{title: "A", message: "B"}\<close> renders the element below, and \<open>save\<close> on it returns
  the record \<open>{title: "A", message: "A"}\<close>.
\<close>

theorem render_save_clashing_class:
  "constructor AB (Obj []) clashing_api (JBool False) empty_heap =
     Inr (example_state clashing_api (JBool False) ''A'' ''B'') \<and>
   render text_platform (example_state clashing_api (JBool False) ''A'' ''B'') =
     Inr (Element ''div'' [''cdx-block'', ''cdx-idea''] []
            [Elem (Element ''div'' [''cdx-idea__message'', ''cdx-idea__title'']
                     [(''contenteditable'', ''true''), (''data-placeholder'', ''Title'')]
                     [Text ''A'']),
             Elem (Element ''div'' [''cdx-idea__message'']
                     [(''contenteditable'', ''true''), (''data-placeholder'', ''Message'')]
                     [Text ''B''])],
          example_state clashing_api (JBool False) ''A'' ''B'') \<and>
   save text_platform (example_state clashing_api (JBool False) ''A'' ''B'')
     (Element ''div'' [''cdx-block'', ''cdx-idea''] []
        [Elem (Element ''div'' [''cdx-idea__message'', ''cdx-idea__title'']
                 [(''contenteditable'', ''true''), (''data-placeholder'', ''Title'')]
                 [Text ''A'']),
         Elem (Element ''div'' [''cdx-idea__message'']
                 [(''contenteditable'', ''true''), (''data-placeholder'', ''Message'')]
                 [Text ''B''])]) =
     Inr (0, example_state clashing_api (JBool False) ''A'' ''A'') \<and>
   stored (example_state clashing_api (JBool False) ''A'' ''A'') =
     [(''title'', JStr ''A''), (''message'', JStr ''A'')]"
proof (intro conjI)
  show "constructor AB (Obj []) clashing_api (JBool False) empty_heap =
      Inr (example_state clashing_api (JBool False) ''A'' ''B'')"
    by (rule constructor_example)
  show "render text_platform (example_state clashing_api (JBool False) ''A'' ''B'') =
     Inr (Element ''div'' [''cdx-block'', ''cdx-idea''] []
            [Elem (Element ''div'' [''cdx-idea__message'', ''cdx-idea__title'']
                     [(''contenteditable'', ''true''), (''data-placeholder'', ''Title'')]
                     [Text ''A'']),
             Elem (Element ''div'' [''cdx-idea__message'']
                     [(''contenteditable'', ''true''), (''data-placeholder'', ''Message'')]
                     [Text ''B''])],
          example_state clashing_api (JBool False) ''A'' ''B'')"
    by (simp add: render_eq example_state_def clashing_api_def chars_ClassName
          text_platform_def stored_def field_def)
  show "save text_platform (example_state clashing_api (JBool False) ''A'' ''B'')
     (Element ''div'' [''cdx-block'', ''cdx-idea''] []
        [Elem (Element ''div'' [''cdx-idea__message'', ''cdx-idea__title'']
                 [(''contenteditable'', ''true''), (''data-placeholder'', ''Title'')]
                 [Text ''A'']),
         Elem (Element ''div'' [''cdx-idea__message'']
                 [(''contenteditable'', ''true''), (''data-placeholder'', ''Message'')]
                 [Text ''B''])]) =
     Inr (0, example_state clashing_api (JBool False) ''A'' ''A'')"
    by (simp add: save_eq querySelector_def innerHTML_def example_state_def
          text_platform_def stored_def)
  show "stored (example_state clashing_api (JBool False) ''A'' ''A'') =
     [(''title'', JStr ''A''), (''message'', JStr ''A'')]"
    by (simp add: example_state_def stored_def)
qed

end
